theory Spec2Isabelle
  imports Complex_Main "HOL-Library.Sublist"
begin

section \<open>The summarization proxy of ai-docs-app (backend/server.js)\<close>

text \<open>
  The backend is an Express application with three routes that talk to an Ollama
  inference server: \<^verbatim>\<open>GET /api/ollama-status\<close>, \<^verbatim>\<open>POST /api/summarize\<close> and
  \<^verbatim>\<open>POST /api/summarize-stream\<close>. Each handler is embedded as a function from the
  request body and the behaviour of the upstream server to what the handler did to the
  response object and which upstream calls it made.

  Strings are lists of code units below 256. JavaScript values that reach the handlers
  come from JSON, so they are values of the datatype \<open>json\<close>; \<open>undefined\<close> is
  \<open>None\<close> of \<open>json option\<close>. Numbers are restricted to integers.
\<close>

subsection \<open>Strings\<close>

definition nl :: char where
  "nl = CHR 0x0A"

definition dq :: char where
  "dq = CHR 0x22"

definition bsl :: char where
  "bsl = CHR 0x5C"

text \<open>White space and line terminators of ECMAScript among the code units below 256:
  TAB, LF, VT, FF, CR, SP and NBSP. \<^verbatim>\<open>String.prototype.trim\<close> strips them at both ends.\<close>

definition is_ws :: "char \<Rightarrow> bool" where
  "is_ws c = (c \<in> set [CHR 0x09, CHR 0x0A, CHR 0x0B, CHR 0x0C, CHR 0x0D, CHR 0x20, CHR 0xA0])"

definition trim :: "string \<Rightarrow> string" where
  "trim s = rev (dropWhile is_ws (rev (dropWhile is_ws s)))"

text \<open>\<^verbatim>\<open>s.split('\n')\<close>: the pieces between line feeds; the empty string gives one empty
  piece, and a string that ends with a line feed gives a last empty piece.\<close>

fun split_nl :: "string \<Rightarrow> string list" where
  "split_nl [] = [[]]"
| "split_nl (c # cs) =
     (if c = nl then [] # split_nl cs
      else (case split_nl cs of [] \<Rightarrow> [[c]] | l # ls \<Rightarrow> (c # l) # ls))"

text \<open>\<^verbatim>\<open>s.includes(m)\<close>: \<open>m\<close> occurs in \<open>s\<close> as a contiguous substring.\<close>

fun str_includes :: "string \<Rightarrow> string \<Rightarrow> bool" where
  "str_includes [] m = (m = [])"
| "str_includes (c # cs) m = (prefix m (c # cs) \<or> str_includes cs m)"

subsection \<open>JavaScript values\<close>

datatype json =
    JNull
  | JBool bool
  | JNum int
  | JString string
  | JArray "json list"
  | JObject "(string \<times> json) list"

text \<open>ToBoolean: \<open>undefined\<close>, \<open>null\<close>, \<open>false\<close>, \<open>0\<close> and the empty string are
  falsy, every other value is truthy.\<close>

fun truthy :: "json option \<Rightarrow> bool" where
  "truthy None = False"
| "truthy (Some JNull) = False"
| "truthy (Some (JBool b)) = b"
| "truthy (Some (JNum n)) = (n \<noteq> 0)"
| "truthy (Some (JString s)) = (s \<noteq> [])"
| "truthy (Some (JArray xs)) = True"
| "truthy (Some (JObject ms)) = True"

text \<open>Reading a property that is no built-in of strings, numbers or arrays (the handlers
  read \<^verbatim>\<open>text\<close>, \<^verbatim>\<open>response\<close> and \<^verbatim>\<open>done\<close>): on \<open>null\<close> the read throws
  a TypeError (the outer \<open>None\<close>); on an object it gives the member, the last one when
  the key is repeated, or \<open>undefined\<close>; on any other value it gives \<open>undefined\<close>.\<close>

fun get_prop :: "json \<Rightarrow> string \<Rightarrow> json option option" where
  "get_prop JNull k = None"
| "get_prop (JObject ms) k = Some (map_of (rev ms) k)"
| "get_prop v k = Some None"

fun digit_char :: "nat \<Rightarrow> char" where
  "digit_char n = char_of (48 + n)"

fun show_nat :: "nat \<Rightarrow> string" where
  "show_nat n = (if n < 10 then [digit_char n] else show_nat (n div 10) @ [digit_char (n mod 10)])"

definition show_int :: "int \<Rightarrow> string" where
  "show_int i = (if i < 0 then CHR ''-'' # show_nat (nat (- i)) else show_nat (nat i))"

fun join_comma :: "string list \<Rightarrow> string" where
  "join_comma [] = []"
| "join_comma [s] = s"
| "join_comma (s # t # ss) = s @ CHR '','' # join_comma (t # ss)"

text \<open>ToString, as \<^verbatim>\<open>+=\<close> on a string applies it to its right operand. An array is
  its elements joined by commas, with \<open>null\<close> elements empty.\<close>

fun to_string :: "json \<Rightarrow> string" where
  "to_string JNull = ''null''"
| "to_string (JBool b) = (if b then ''true'' else ''false'')"
| "to_string (JNum n) = show_int n"
| "to_string (JString s) = s"
| "to_string (JArray xs) = join_comma (map (\<lambda>x. if x = JNull then [] else to_string x) xs)"
| "to_string (JObject ms) = ''[object Object]''"

declare show_nat.simps [simp del]

subsection \<open>Configuration and upstream calls\<close>

text \<open>\<^verbatim>\<open>OLLAMA_URL\<close> and \<^verbatim>\<open>MODEL_NAME\<close>, read from the environment when the server
  starts (lines 17 and 18).\<close>

record config =
  ollama_url :: string
  model_name :: string

text \<open>The values of lines 17 and 18 when the environment sets neither variable.\<close>

definition default_config :: config where
  "default_config = \<lparr>ollama_url = ''http://localhost:11434'', model_name = ''mistral''\<rparr>"

text \<open>What a rejected axios promise throws: an error object with an optional
  \<^verbatim>\<open>code\<close> and a \<^verbatim>\<open>message\<close>. An awaited call either resolves with its data or
  is rejected with such an error.\<close>

record js_error =
  code :: "string option"
  message :: string

datatype 'a promise = Resolved 'a | Rejected js_error

text \<open>The body of \<^verbatim>\<open>POST {OLLAMA_URL}/api/generate\<close> (lines 58 to 66 and 116 to 126).\<close>

record generate_request =
  url :: string
  model :: string
  prompt :: string
  stream :: bool
  temperature :: rat
  max_tokens :: nat

text \<open>Every call a handler makes to the inference server is logged in order.\<close>

datatype upstream_call = GetTags string | PostGenerate generate_request

definition build_prompt :: "string \<Rightarrow> string" where
  "build_prompt text =
     ''Please provide a concise and professional summary of the following text. Focus on the key points and main ideas:''
       @ [nl, nl] @ text"

definition generate_call :: "config \<Rightarrow> string \<Rightarrow> bool \<Rightarrow> generate_request" where
  "generate_call cfg text s =
     \<lparr>url = ollama_url cfg @ ''/api/generate'', model = model_name cfg,
      prompt = build_prompt text, stream = s, temperature = 7 / 10, max_tokens = 500\<rparr>"

subsection \<open>The response object\<close>

text \<open>One frame \<^verbatim>\<open>data: <json>\n\n\<close> of the event stream, by its \<^verbatim>\<open>type\<close> member:
  \<open>Start\<close> is the fixed frame of line 114, \<open>Chunk content fullContent\<close> the frame of
  lines 141 to 145, \<open>Complete content originalText\<close> the frame of lines 150 to 154 and
  175 to 179, \<open>Error error details\<close> the frames of lines 166 to 169 (no details) and
  199 to 203.\<close>

datatype stream_event =
    Start
  | Chunk json string
  | Complete string string
  | Error string "string option"

text \<open>The part of Node's \<^verbatim>\<open>ServerResponse\<close> the handlers use. \<open>headersSent\<close> and
  \<open>writableEnded\<close> are the platform's flags of these names: the first is set by
  \<^verbatim>\<open>writeHead\<close>, by the first \<^verbatim>\<open>write\<close> and by \<^verbatim>\<open>end\<close>, the second by
  \<^verbatim>\<open>end\<close>. \<open>headers\<close> are the headers given to \<^verbatim>\<open>writeHead\<close>, \<open>json_body\<close> the
  body given to \<^verbatim>\<open>res.json\<close>, which ends the response too. \<open>frames\<close> are the events
  written while the response was open; a write after \<^verbatim>\<open>end()\<close> does not reach the
  client and is kept in \<open>late_writes\<close>; \<open>end_calls\<close> counts the calls that end the
  response.\<close>

record response =
  statusCode :: nat
  headers :: "(string \<times> string) list"
  headersSent :: bool
  writableEnded :: bool
  json_body :: "json option"
  frames :: "stream_event list"
  late_writes :: "stream_event list"
  end_calls :: nat

definition fresh_response :: response where
  "fresh_response =
     \<lparr>statusCode = 200, headers = [], headersSent = False, writableEnded = False,
      json_body = None, frames = [], late_writes = [], end_calls = 0\<rparr>"

definition res_status :: "nat \<Rightarrow> response \<Rightarrow> response" where
  "res_status c r = r\<lparr>statusCode := c\<rparr>"

definition res_json :: "json \<Rightarrow> response \<Rightarrow> response" where
  "res_json b r =
     r\<lparr>json_body := Some b, headersSent := True, writableEnded := True,
       end_calls := end_calls r + 1\<rparr>"

definition res_writeHead :: "nat \<Rightarrow> (string \<times> string) list \<Rightarrow> response \<Rightarrow> response" where
  "res_writeHead c hs r = r\<lparr>statusCode := c, headers := hs, headersSent := True\<rparr>"

definition res_write :: "stream_event \<Rightarrow> response \<Rightarrow> response" where
  "res_write e r =
     (if writableEnded r then r\<lparr>late_writes := late_writes r @ [e]\<rparr>
      else r\<lparr>frames := frames r @ [e], headersSent := True\<rparr>)"

definition res_end :: "response \<Rightarrow> response" where
  "res_end r = r\<lparr>headersSent := True, writableEnded := True, end_calls := end_calls r + 1\<rparr>"

text \<open>What a handler did: the response object as it left it and the upstream calls it
  made. \<open>destroy_calls\<close> counts the calls of \<^verbatim>\<open>destroy()\<close> on the upstream stream.\<close>

record outcome =
  res :: response
  upstream_calls :: "upstream_call list"
  destroy_calls :: nat

subsection \<open>GET /api/ollama-status (lines 26 to 45)\<close>

text \<open>\<^verbatim>\<open>response.data.models || []\<close>.\<close>

definition models_or_empty :: "string list option \<Rightarrow> string list" where
  "models_or_empty data = (case data of None \<Rightarrow> [] | Some ms \<Rightarrow> ms)"

text \<open>\<open>tags\<close> is the outcome of \<^verbatim>\<open>axios.get(`${OLLAMA_URL}/api/tags`)\<close>: rejected, or
  resolved with \<^verbatim>\<open>response.data.models\<close>, which is \<open>None\<close> when the member is missing
  and else the \<^verbatim>\<open>name\<close> of each model, a string as the upstream contract has it.
  Both branches answer with \<^verbatim>\<open>res.json\<close> and the default status 200.\<close>

definition ollama_status :: "config \<Rightarrow> (string \<Rightarrow> string list option promise) \<Rightarrow> outcome" where
  "ollama_status cfg tags =
     (let u = ollama_url cfg @ ''/api/tags'' in
      case tags u of
        Resolved data \<Rightarrow>
          (let models = models_or_empty data;
               hasModel = list_ex (\<lambda>name. str_includes name (model_name cfg)) models
           in \<lparr>res = res_json (JObject
                  [(''connected'', JBool True),
                   (''models'', JArray (map JString models)),
                   (''hasRequiredModel'', JBool hasModel),
                   (''requiredModel'', JString (model_name cfg))]) fresh_response,
               upstream_calls = [GetTags u], destroy_calls = 0\<rparr>)
      | Rejected error \<Rightarrow>
          \<lparr>res = res_json (JObject
                  [(''connected'', JBool False),
                   (''error'', JString (message error)),
                   (''requiredModel'', JString (model_name cfg))]) fresh_response,
           upstream_calls = [GetTags u], destroy_calls = 0\<rparr>)"

subsection \<open>POST /api/summarize (lines 48 to 91)\<close>

text \<open>\<^verbatim>\<open>const { text } = req.body\<close>: the member \<^verbatim>\<open>text\<close> of the body, \<open>undefined\<close>
  when the body has none.\<close>

definition req_text :: "(string \<times> json) list \<Rightarrow> json option" where
  "req_text body = map_of (rev body) ''text''"

definition text_required :: json where
  "text_required = JObject [(''error'', JString ''Text is required for summarization'')]"

text \<open>The catch block of lines 76 to 90.\<close>

definition summarize_catch :: "config \<Rightarrow> js_error \<Rightarrow> response \<Rightarrow> response" where
  "summarize_catch cfg error r =
     (if code error = Some ''ECONNREFUSED''
      then res_json (JObject
             [(''error'', JString ''Cannot connect to Ollama. Please ensure Ollama is running locally.''),
              (''details'', JString (''Trying to connect to: '' @ ollama_url cfg))])
             (res_status 503 r)
      else res_json (JObject
             [(''error'', JString ''Failed to generate summary''),
              (''details'', JString (message error))])
             (res_status 500 r))"

text \<open>The TypeErrors the try block can raise, with V8's messages: \<^verbatim>\<open>text.trim()\<close> on a
  truthy value that is no string, and \<^verbatim>\<open>summary.trim()\<close> when the upstream reply has
  no \<^verbatim>\<open>response\<close>.\<close>

definition trim_not_function :: js_error where
  "trim_not_function = \<lparr>code = None, message = ''text.trim is not a function''\<rparr>"

definition trim_of_undefined :: js_error where
  "trim_of_undefined =
     \<lparr>code = None, message = ''Cannot read properties of undefined (reading 'trim')''\<rparr>"

text \<open>\<open>body\<close> holds the members of \<^verbatim>\<open>req.body\<close>; \<open>generate\<close> is the outcome of the
  upstream call for a request, resolved with \<^verbatim>\<open>data.response\<close> (\<open>None\<close> when the
  member is missing).\<close>

definition summarize ::
  "config \<Rightarrow> (generate_request \<Rightarrow> string option promise) \<Rightarrow> (string \<times> json) list \<Rightarrow> outcome" where
  "summarize cfg generate body =
     (let text = req_text body in
      if \<not> truthy text
      then \<lparr>res = res_json text_required (res_status 400 fresh_response),
            upstream_calls = [], destroy_calls = 0\<rparr>
      else (case text of
        Some (JString t) \<Rightarrow>
          if length (trim t) = 0
          then \<lparr>res = res_json text_required (res_status 400 fresh_response),
                upstream_calls = [], destroy_calls = 0\<rparr>
          else (let rq = generate_call cfg t False in
            case generate rq of
              Rejected error \<Rightarrow>
                \<lparr>res = summarize_catch cfg error fresh_response,
                 upstream_calls = [PostGenerate rq], destroy_calls = 0\<rparr>
            | Resolved None \<Rightarrow>
                \<lparr>res = summarize_catch cfg trim_of_undefined fresh_response,
                 upstream_calls = [PostGenerate rq], destroy_calls = 0\<rparr>
            | Resolved (Some summary) \<Rightarrow>
                \<lparr>res = res_json (JObject
                        [(''success'', JBool True),
                         (''summary'', JString (trim summary)),
                         (''originalText'', JString t)]) fresh_response,
                 upstream_calls = [PostGenerate rq], destroy_calls = 0\<rparr>)
      | _ \<Rightarrow>
          \<lparr>res = summarize_catch cfg trim_not_function fresh_response,
           upstream_calls = [], destroy_calls = 0\<rparr>))"

subsection \<open>POST /api/summarize-stream (lines 94 to 206)\<close>

text \<open>A call of one of the four listeners registered in lines 131 to 190: the
  \<^verbatim>\<open>data\<close> listener of the upstream stream with its chunk, its \<^verbatim>\<open>error\<close>
  listener, its \<^verbatim>\<open>end\<close> listener, and the \<^verbatim>\<open>close\<close> listener of the request.
  Which of these calls the runtime makes, and when, is the matter of \<open>runtime_signals\<close>
  below.\<close>

datatype stream_signal = Data string | StreamError | End | ReqClose

text \<open>The variables the listeners share: the response object, \<^verbatim>\<open>fullResponse\<close>, and
  the number of calls of \<^verbatim>\<open>ollamaResponse.data.destroy()\<close>.\<close>

record relay =
  rres :: response
  fullResponse :: string
  destroys :: nat

definition sse_headers :: "(string \<times> string) list" where
  "sse_headers =
     [(''Content-Type'', ''text/event-stream''),
      (''Cache-Control'', ''no-cache''),
      (''Connection'', ''keep-alive''),
      (''Access-Control-Allow-Origin'', ''*''),
      (''Access-Control-Allow-Headers'', ''Cache-Control'')]"

text \<open>The body of the loop of lines 134 to 161 for one line of a chunk. \<open>parse\<close> is
  \<^verbatim>\<open>JSON.parse\<close>, \<open>None\<close> when it throws a SyntaxError; that and the TypeError of
  reading a property of \<open>null\<close> are caught in line 157, and the line is skipped.\<close>

definition process_line :: "(string \<Rightarrow> json option) \<Rightarrow> string \<Rightarrow> relay \<Rightarrow> string \<Rightarrow> relay" where
  "process_line parse text st line =
     (if trim line \<noteq> [] then
        (case parse line of
           None \<Rightarrow> st
         | Some parsed \<Rightarrow>
             (case get_prop parsed ''response'' of
                None \<Rightarrow> st
              | Some response \<Rightarrow>
                  (let st1 =
                     (case response of
                        None \<Rightarrow> st
                      | Some v \<Rightarrow>
                          if truthy (Some v)
                          then (let full = fullResponse st @ to_string v
                                in st\<lparr>fullResponse := full,
                                      rres := res_write (Chunk v full) (rres st)\<rparr>)
                          else st)
                   in (case get_prop parsed ''done'' of
                         None \<Rightarrow> st1
                       | Some d \<Rightarrow>
                           if truthy d
                           then st1\<lparr>rres := res_end
                                  (res_write (Complete (trim (fullResponse st1)) text) (rres st1))\<rparr>
                           else st1))))
      else st)"

text \<open>The \<^verbatim>\<open>data\<close> listener (lines 131 to 162): the text of the chunk
  (\<^verbatim>\<open>chunk.toString()\<close>) is split at line feeds and each piece is handled on its own;
  nothing is kept from one chunk to the next but \<^verbatim>\<open>fullResponse\<close>.\<close>

definition on_data :: "(string \<Rightarrow> json option) \<Rightarrow> string \<Rightarrow> relay \<Rightarrow> string \<Rightarrow> relay" where
  "on_data parse text st chunk = foldl (process_line parse text) st (split_nl chunk)"

text \<open>The \<^verbatim>\<open>error\<close> listener (lines 164 to 171).\<close>

definition on_error :: "relay \<Rightarrow> relay" where
  "on_error st = st\<lparr>rres := res_end (res_write (Error ''Stream processing error'' None) (rres st))\<rparr>"

text \<open>The \<^verbatim>\<open>end\<close> listener (lines 173 to 182), with its test of \<^verbatim>\<open>res.headersSent\<close>.\<close>

definition on_end :: "string \<Rightarrow> relay \<Rightarrow> relay" where
  "on_end text st =
     (if \<not> headersSent (rres st)
      then st\<lparr>rres := res_end (res_write (Complete (trim (fullResponse st)) text) (rres st))\<rparr>
      else st)"

text \<open>The body of the \<^verbatim>\<open>close\<close> listener of the request (lines 185 to 190), what it
  does if it is called. With \<^verbatim>\<open>responseType: 'stream'\<close> the data of the reply is a
  Node readable stream, whose \<^verbatim>\<open>destroy\<close> is always defined, so the test of line 187
  holds.\<close>

definition on_close :: "relay \<Rightarrow> relay" where
  "on_close st = st\<lparr>destroys := destroys st + 1\<rparr>"

fun on_signal :: "(string \<Rightarrow> json option) \<Rightarrow> string \<Rightarrow> relay \<Rightarrow> stream_signal \<Rightarrow> relay" where
  "on_signal parse text st (Data chunk) = on_data parse text st chunk"
| "on_signal parse text st StreamError = on_error st"
| "on_signal parse text st End = on_end text st"
| "on_signal parse text st ReqClose = on_close st"

definition run_signals :: "(string \<Rightarrow> json option) \<Rightarrow> string \<Rightarrow> relay \<Rightarrow> stream_signal list \<Rightarrow> relay" where
  "run_signals parse text st sigs = foldl (on_signal parse text) st sigs"

text \<open>The catch block of lines 192 to 205.\<close>

definition stream_catch :: "js_error \<Rightarrow> response \<Rightarrow> response" where
  "stream_catch error r =
     (let errorMessage =
        (if code error = Some ''ECONNREFUSED''
         then ''Cannot connect to Ollama. Please ensure Ollama is running locally.''
         else ''Failed to generate summary'')
      in res_end (res_write (Error errorMessage (Some (message error))) r))"

text \<open>The response after lines 105 to 114: the headers of the event stream and the
  \<open>start\<close> frame.\<close>

definition opened_response :: response where
  "opened_response = res_write Start (res_writeHead 200 sse_headers fresh_response)"

text \<open>The handler. \<open>generate\<close> is the outcome of the upstream call of lines 116 to 126:
  rejected, or resolved with a stream, given by the listener calls that follow in order.\<close>

definition summarize_stream ::
  "config \<Rightarrow> (string \<Rightarrow> json option) \<Rightarrow> (generate_request \<Rightarrow> stream_signal list promise)
     \<Rightarrow> (string \<times> json) list \<Rightarrow> outcome" where
  "summarize_stream cfg parse generate body =
     (let text = req_text body in
      if \<not> truthy text
      then \<lparr>res = res_json text_required (res_status 400 fresh_response),
            upstream_calls = [], destroy_calls = 0\<rparr>
      else (case text of
        Some (JString t) \<Rightarrow>
          if length (trim t) = 0
          then \<lparr>res = res_json text_required (res_status 400 fresh_response),
                upstream_calls = [], destroy_calls = 0\<rparr>
          else (let rq = generate_call cfg t True in
            case generate rq of
              Rejected error \<Rightarrow>
                \<lparr>res = stream_catch error opened_response,
                 upstream_calls = [PostGenerate rq], destroy_calls = 0\<rparr>
            | Resolved sigs \<Rightarrow>
                (let st = run_signals parse t
                            \<lparr>rres = opened_response, fullResponse = [], destroys = 0\<rparr> sigs
                 in \<lparr>res = rres st, upstream_calls = [PostGenerate rq],
                     destroy_calls = destroys st\<rparr>))
      | _ \<Rightarrow>
          \<lparr>res = stream_catch trim_not_function fresh_response,
           upstream_calls = [], destroy_calls = 0\<rparr>))"

subsection \<open>What the runtime dispatches to the listeners\<close>

text \<open>What happens while the relay runs, after the listeners are registered: the
  upstream stream delivers a chunk, fails or ends, or the client disconnects.\<close>

datatype runtime_event = UpstreamData string | UpstreamError | UpstreamEnd | ClientDisconnect

text \<open>The listener calls an event leads to, on the platform the README requires (Node 16
  or later). The events of the upstream stream reach their listeners. A disconnect of the
  client reaches none: there the request emits \<^verbatim>\<open>close\<close> once, when it has been read
  to its end, and \<^verbatim>\<open>express.json\<close> (line 13) has read the body before the handler
  starts, while the listener of line 185 is attached only after the \<^verbatim>\<open>await\<close> of line
  116 has returned. So the event has been emitted before its listener exists, and an
  emitter does not repeat an event for a listener attached later. When the client
  disconnects, the socket closes and the response emits \<^verbatim>\<open>close\<close>, to which the handler
  does not listen.\<close>

fun dispatched :: "runtime_event \<Rightarrow> stream_signal list" where
  "dispatched (UpstreamData chunk) = [Data chunk]"
| "dispatched UpstreamError = [StreamError]"
| "dispatched UpstreamEnd = [End]"
| "dispatched ClientDisconnect = []"

definition runtime_signals :: "runtime_event list \<Rightarrow> stream_signal list" where
  "runtime_signals evs = concat (map dispatched evs)"

subsection \<open>A parser for the records of the upstream stream\<close>

text \<open>\<^verbatim>\<open>JSON.parse\<close> belongs to the platform, and the relay above takes it as the
  parameter \<open>parse\<close>. To run the relay on concrete chunks, \<open>JSON_parse\<close> implements it
  for the JSON texts of one shape: a string, \<^verbatim>\<open>true\<close>, \<^verbatim>\<open>false\<close>, \<^verbatim>\<open>null\<close>, an
  integer that a JavaScript number holds exactly (at most \<open>2 ^ 53 - 1\<close> in magnitude),
  or an object whose members are such values. On these it gives the value
  \<^verbatim>\<open>JSON.parse\<close> gives, and on a text that is no JSON it gives \<open>None\<close> (the
  SyntaxError). It gives \<open>None\<close> as well on JSON outside that shape (arrays, nested
  objects, fractions and exponents, larger integers, \<^verbatim>\<open>\u\<close> escapes), where
  \<^verbatim>\<open>JSON.parse\<close> gives a value: it stands for \<^verbatim>\<open>JSON.parse\<close> on texts of that
  shape only.\<close>

datatype token = TLBrace | TRBrace | TColon | TComma | TStr string | TWord string

datatype lexmode = Idle | InStr string | InEsc string | InWord string

definition is_json_ws :: "char \<Rightarrow> bool" where
  "is_json_ws c = (c \<in> set [CHR 0x20, CHR 0x09, CHR 0x0A, CHR 0x0D])"

definition is_digit :: "char \<Rightarrow> bool" where
  "is_digit c = (48 \<le> (of_char c :: nat) \<and> (of_char c :: nat) \<le> 57)"

definition is_word_char :: "char \<Rightarrow> bool" where
  "is_word_char c =
     (is_digit c \<or> c = CHR ''-'' \<or> (97 \<le> (of_char c :: nat) \<and> (of_char c :: nat) \<le> 122))"

definition lex_idle :: "char \<Rightarrow> token list \<Rightarrow> (lexmode \<times> token list) option" where
  "lex_idle c ts =
     (if c = CHR ''{'' then Some (Idle, TLBrace # ts)
      else if c = CHR ''}'' then Some (Idle, TRBrace # ts)
      else if c = CHR '':'' then Some (Idle, TColon # ts)
      else if c = CHR '','' then Some (Idle, TComma # ts)
      else if c = dq then Some (InStr [], ts)
      else if is_json_ws c then Some (Idle, ts)
      else if is_word_char c then Some (InWord [c], ts)
      else None)"

text \<open>One character of the lexer; the tokens and the characters of the current token are
  collected in reverse.\<close>

fun lex_step :: "lexmode \<times> token list \<Rightarrow> char \<Rightarrow> (lexmode \<times> token list) option" where
  "lex_step (Idle, ts) c = lex_idle c ts"
| "lex_step (InStr acc, ts) c =
     (if c = dq then Some (Idle, TStr (rev acc) # ts)
      else if c = bsl then Some (InEsc acc, ts)
      else if (of_char c :: nat) < 32 then None
      else Some (InStr (c # acc), ts))"
| "lex_step (InEsc acc, ts) c =
     (if c = dq \<or> c = bsl \<or> c = CHR ''/'' then Some (InStr (c # acc), ts)
      else if c = CHR ''n'' then Some (InStr (CHR 0x0A # acc), ts)
      else if c = CHR ''t'' then Some (InStr (CHR 0x09 # acc), ts)
      else if c = CHR ''r'' then Some (InStr (CHR 0x0D # acc), ts)
      else if c = CHR ''b'' then Some (InStr (CHR 0x08 # acc), ts)
      else if c = CHR ''f'' then Some (InStr (CHR 0x0C # acc), ts)
      else None)"
| "lex_step (InWord acc, ts) c =
     (if is_word_char c then Some (InWord (c # acc), ts)
      else lex_idle c (TWord (rev acc) # ts))"

fun lex_all :: "lexmode \<times> token list \<Rightarrow> string \<Rightarrow> token list option" where
  "lex_all (Idle, ts) [] = Some (rev ts)"
| "lex_all (InWord acc, ts) [] = Some (rev (TWord (rev acc) # ts))"
| "lex_all (InStr acc, ts) [] = None"
| "lex_all (InEsc acc, ts) [] = None"
| "lex_all st (c # cs) = (case lex_step st c of None \<Rightarrow> None | Some st' \<Rightarrow> lex_all st' cs)"

definition nat_literal :: "string \<Rightarrow> int option" where
  "nat_literal ds =
     (let n = foldl (\<lambda>a c. 10 * a + (int (of_char c) - 48)) 0 ds in
      if ds \<noteq> [] \<and> list_all is_digit ds \<and> (length ds = 1 \<or> take 1 ds \<noteq> ''0'') \<and>
         n \<le> 9007199254740991
      then Some n
      else None)"

fun word_value :: "string \<Rightarrow> json option" where
  "word_value w =
     (if w = ''true'' then Some (JBool True)
      else if w = ''false'' then Some (JBool False)
      else if w = ''null'' then Some JNull
      else (case w of
              [] \<Rightarrow> None
            | c # ds \<Rightarrow>
                if c = CHR ''-'' then map_option (\<lambda>n. JNum (- n)) (nat_literal ds)
                else map_option JNum (nat_literal w)))"

fun scalar :: "token \<Rightarrow> json option" where
  "scalar (TStr s) = Some (JString s)"
| "scalar (TWord w) = word_value w"
| "scalar t = None"

fun members :: "token list \<Rightarrow> (string \<times> json) list option" where
  "members [TStr k, TColon, v, TRBrace] = map_option (\<lambda>j. [(k, j)]) (scalar v)"
| "members (TStr k # TColon # v # TComma # ts) =
     (case scalar v of
        None \<Rightarrow> None
      | Some j \<Rightarrow> map_option (\<lambda>ms. (k, j) # ms) (members ts))"
| "members ts = None"

definition JSON_parse :: "string \<Rightarrow> json option" where
  "JSON_parse s =
     (case lex_all (Idle, []) s of
        None \<Rightarrow> None
      | Some ts \<Rightarrow>
          (case ts of
             [TLBrace, TRBrace] \<Rightarrow> Some (JObject [])
           | TLBrace # ms \<Rightarrow> map_option JObject (members ms)
           | [t] \<Rightarrow> scalar t
           | _ \<Rightarrow> None))"

text \<open>The line the inference server sends for a fragment and a completion flag:
  \<^verbatim>\<open>{"response":"<fragment>","done":<flag>}\<close>, for a fragment without quotes,
  backslashes and control characters.\<close>

definition record_line :: "string \<Rightarrow> bool \<Rightarrow> string" where
  "record_line fragment flag =
     ''{'' @ [dq] @ ''response'' @ [dq] @ '':'' @ [dq] @ fragment @ [dq] @ '','' @
     [dq] @ ''done'' @ [dq] @ '':'' @ (if flag then ''true'' else ''false'') @ ''}''"

subsection \<open>Notions of the specification\<close>

text \<open>A text is empty or whitespace-only.\<close>

definition blank :: "string \<Rightarrow> bool" where
  "blank t = list_all is_ws t"

text \<open>The terminal events of the stream are \<open>complete\<close> and \<open>error\<close>.\<close>

fun terminal :: "stream_event \<Rightarrow> bool" where
  "terminal (Complete c t) = True"
| "terminal (Error e d) = True"
| "terminal ev = False"

fun is_chunk :: "stream_event \<Rightarrow> bool" where
  "is_chunk (Chunk v full) = True"
| "is_chunk ev = False"

text \<open>Some string member of a JSON body contains \<open>u\<close>.\<close>

fun mentions :: "json \<Rightarrow> string \<Rightarrow> bool" where
  "mentions (JObject ms) u =
     list_ex (\<lambda>m. case snd m of JString s \<Rightarrow> str_includes s u | _ \<Rightarrow> False) ms"
| "mentions v u = False"

text \<open>The shape \<^verbatim>\<open>OllamaStatus\<close> of the specification: an object with a boolean
  \<^verbatim>\<open>connected\<close>, a list of strings \<^verbatim>\<open>models\<close>, a boolean \<^verbatim>\<open>hasRequiredModel\<close>, a
  string \<^verbatim>\<open>requiredModel\<close> and, if present, a string \<^verbatim>\<open>error\<close>.\<close>

fun is_jbool :: "json option \<Rightarrow> bool" where
  "is_jbool (Some (JBool b)) = True"
| "is_jbool v = False"

fun is_jstring :: "json option \<Rightarrow> bool" where
  "is_jstring (Some (JString s)) = True"
| "is_jstring v = False"

fun is_jstrings :: "json option \<Rightarrow> bool" where
  "is_jstrings (Some (JArray xs)) = list_all (\<lambda>x. is_jstring (Some x)) xs"
| "is_jstrings v = False"

fun ollama_status_shape :: "json \<Rightarrow> bool" where
  "ollama_status_shape (JObject ms) =
     (is_jbool (map_of (rev ms) ''connected'') \<and>
      is_jstrings (map_of (rev ms) ''models'') \<and>
      is_jbool (map_of (rev ms) ''hasRequiredModel'') \<and>
      is_jstring (map_of (rev ms) ''requiredModel'') \<and>
      (map_of (rev ms) ''error'' = None \<or> is_jstring (map_of (rev ms) ''error'')))"
| "ollama_status_shape v = False"

text \<open>The accumulated content a \<open>chunk\<close> event carries.\<close>

fun accumulated :: "stream_event \<Rightarrow> string" where
  "accumulated (Chunk v full) = full"
| "accumulated ev = []"

text \<open>A well-formed record of the upstream stream, \<^verbatim>\<open>{response?, done}\<close>: an object
  whose \<^verbatim>\<open>response\<close>, if present, is a string and whose \<^verbatim>\<open>done\<close>, if present, is a
  boolean. \<open>as_record\<close> gives its text fragment (empty when there is none) and its
  completion flag.\<close>

fun as_record :: "json \<Rightarrow> (string \<times> bool) option" where
  "as_record (JObject ms) =
     (case (map_of (rev ms) ''response'', map_of (rev ms) ''done'') of
        (None, None) \<Rightarrow> Some ([], False)
      | (None, Some (JBool d)) \<Rightarrow> Some ([], d)
      | (Some (JString f), None) \<Rightarrow> Some (f, False)
      | (Some (JString f), Some (JBool d)) \<Rightarrow> Some (f, d)
      | _ \<Rightarrow> None)"
| "as_record v = None"

text \<open>The records the chunks of an upstream stream hold, line by line: for each line
  that is not blank, the record it parses to, or \<open>None\<close> when it is malformed.\<close>

definition records :: "(string \<Rightarrow> json option) \<Rightarrow> string list \<Rightarrow> (string \<times> bool) option list" where
  "records parse chunks =
     map (\<lambda>l. case parse l of None \<Rightarrow> None | Some j \<Rightarrow> as_record j)
       (filter (\<lambda>l. trim l \<noteq> []) (concat (map split_nl chunks)))"

text \<open>The relay of the specification (section 4.3, step 4), from the accumulator and the
  records to the events: a fragment is appended to the accumulator and gives a \<open>chunk\<close>
  event with the fragment and the accumulator; a completion flag gives one \<open>complete\<close>
  event with the trimmed accumulator and the input text, and the stream is closed.\<close>

fun relay_events :: "string \<Rightarrow> string \<Rightarrow> (string \<times> bool) list \<Rightarrow> stream_event list" where
  "relay_events text acc [] = []"
| "relay_events text acc ((fragment, flag) # rs) =
     (if fragment \<noteq> [] then [Chunk (JString fragment) (acc @ fragment)] else []) @
     (if flag then [Complete (trim (acc @ fragment)) text]
      else relay_events text (acc @ fragment) rs)"

text \<open>A chunk ends where a line ends: it is empty or its last character is a line feed.\<close>

definition line_aligned :: "string \<Rightarrow> bool" where
  "line_aligned c = (c = [] \<or> last c = nl)"

text \<open>An upstream that gives the same outcome to every request.\<close>

definition replies :: "'a promise \<Rightarrow> 'b \<Rightarrow> 'a promise" where
  "replies r rq = r"

section \<open>Properties\<close>

subsection \<open>Auxiliary facts\<close>

lemma trim_Nil_iff: "trim t = [] \<longleftrightarrow> blank t"
proof -
  have a: "dropWhile is_ws (rev (dropWhile is_ws t)) = [] \<longleftrightarrow> dropWhile is_ws t = []"
  proof (cases "dropWhile is_ws t")
    case Nil
    show ?thesis unfolding Nil by simp
  next
    case (Cons c cs)
    then have "\<not> is_ws c" using hd_dropWhile [of is_ws t] by auto
    with Cons show ?thesis by (auto simp: dropWhile_eq_Nil_conv)
  qed
  show ?thesis unfolding trim_def blank_def
    using a by (simp add: dropWhile_eq_Nil_conv list_all_iff)
qed

lemma str_includes_sublist: "str_includes s m \<longleftrightarrow> sublist m s"
  by (induction s) (auto simp: sublist_Cons_right)

lemma str_includes_append: "str_includes (p @ u) u"
  by (simp add: str_includes_sublist)

subsection \<open>The synchronous summarization\<close>

text \<open>
  Claim C4. When the text of a \<^verbatim>\<open>POST /api/summarize\<close> request is a string that is not
  blank and the upstream call resolves with a generated text, the response has status 200
  and the body \<^verbatim>\<open>{success: true, summary, originalText}\<close> with the trimmed generated
  text and the text of the request unchanged, and the handler has made exactly one
  upstream call, whose \<^verbatim>\<open>stream\<close> member is false.
\<close>

theorem summarize_success:
  assumes "req_text body = Some (JString t)" and "\<not> blank t"
    and "generate (generate_call cfg t False) = Resolved (Some s)"
  shows "statusCode (res (summarize cfg generate body)) = 200 \<and>
         json_body (res (summarize cfg generate body)) =
           Some (JObject [(''success'', JBool True), (''summary'', JString (trim s)),
                          (''originalText'', JString t)]) \<and>
         upstream_calls (summarize cfg generate body) = [PostGenerate (generate_call cfg t False)] \<and>
         stream (generate_call cfg t False) = False"
proof -
  from assms(2) have nb: "trim t \<noteq> []" by (simp add: trim_Nil_iff)
  then have "t \<noteq> []" by (auto simp: trim_def)
  with assms nb show ?thesis
    by (simp add: summarize_def res_json_def fresh_response_def generate_call_def)
qed

theorem summarize_success_witness:
  "req_text [(''text'', JString ''Hello world. This is a test.'')] =
     Some (JString ''Hello world. This is a test.'') \<and>
   \<not> blank ''Hello world. This is a test.'' \<and>
   statusCode (res (summarize default_config (\<lambda>rq. Resolved (Some '' Summary. ''))
      [(''text'', JString ''Hello world. This is a test.'')])) = 200 \<and>
   json_body (res (summarize default_config (\<lambda>rq. Resolved (Some '' Summary. ''))
      [(''text'', JString ''Hello world. This is a test.'')])) =
     Some (JObject [(''success'', JBool True), (''summary'', JString ''Summary.''),
                    (''originalText'', JString ''Hello world. This is a test.'')])"
proof -
  have t: "req_text [(''text'', JString ''Hello world. This is a test.'')] =
        Some (JString ''Hello world. This is a test.'')"
    by (simp add: req_text_def)
  have b: "\<not> blank ''Hello world. This is a test.''"
    by (simp add: blank_def is_ws_def)
  have g: "(\<lambda>rq. Resolved (Some '' Summary. ''))
             (generate_call default_config ''Hello world. This is a test.'' False) =
           Resolved (Some '' Summary. '')"
    by simp
  have "trim '' Summary. '' = ''Summary.''" by (simp add: trim_def is_ws_def)
  with summarize_success [OF t b, of "\<lambda>rq. Resolved (Some '' Summary. '')" default_config "'' Summary. ''", OF g]
  show ?thesis using t b by simp
qed

lemma blank_trim_length: "blank t \<Longrightarrow> length (trim t) = 0"
  by (simp add: trim_Nil_iff)

text \<open>
  Claim C5. When the text of a \<^verbatim>\<open>POST /api/summarize\<close> request is the empty string or
  consists of white space only, the response has status 400 and the error body, and the
  handler has made no upstream call.
\<close>

theorem summarize_blank_rejected:
  assumes "req_text body = Some (JString t)" and "blank t"
  shows "statusCode (res (summarize cfg generate body)) = 400 \<and>
         json_body (res (summarize cfg generate body)) = Some text_required \<and>
         upstream_calls (summarize cfg generate body) = []"
  using assms blank_trim_length [OF assms(2)]
  by (simp add: summarize_def res_json_def res_status_def fresh_response_def)

theorem summarize_blank_rejected_witness:
  "req_text [(''text'', JString [CHR 0x20, CHR 0x09, nl])] = Some (JString [CHR 0x20, CHR 0x09, nl]) \<and>
   blank [CHR 0x20, CHR 0x09, nl] \<and>
   statusCode (res (summarize default_config (\<lambda>rq. Resolved (Some ''unused''))
      [(''text'', JString [CHR 0x20, CHR 0x09, nl])])) = 400 \<and>
   upstream_calls (summarize default_config (\<lambda>rq. Resolved (Some ''unused''))
      [(''text'', JString [CHR 0x20, CHR 0x09, nl])]) = []"
proof -
  have t: "req_text [(''text'', JString [CHR 0x20, CHR 0x09, nl])] = Some (JString [CHR 0x20, CHR 0x09, nl])"
    by (simp add: req_text_def)
  have b: "blank [CHR 0x20, CHR 0x09, nl]"
    by (simp add: blank_def is_ws_def nl_def)
  from summarize_blank_rejected [OF t b, of default_config "\<lambda>rq. Resolved (Some ''unused'')"] t b
  show ?thesis by simp
qed

lemma mentions_details: "mentions (JObject [(k, JString a), (k', JString (p @ u))]) u"
  by (simp only: mentions.simps list_ex_Nil_iff list_ex_Cons_iff snd_conv json.case str_includes_append simp_thms)

text \<open>
  Claim C6. When the text of a \<^verbatim>\<open>POST /api/summarize\<close> request is not blank and the
  upstream call is rejected: with the code \<^verbatim>\<open>ECONNREFUSED\<close> the response has status 503
  and its body names the configured upstream URL (in its member \<^verbatim>\<open>details\<close>); with any
  other error the response has status 500 and carries the message of the upstream error.
\<close>

theorem summarize_upstream_failure:
  assumes "req_text body = Some (JString t)" and "\<not> blank t"
    and "generate (generate_call cfg t False) = Rejected e"
  shows "(code e = Some ''ECONNREFUSED'' \<longrightarrow>
            statusCode (res (summarize cfg generate body)) = 503 \<and>
            json_body (res (summarize cfg generate body)) =
              Some (JObject
                [(''error'', JString ''Cannot connect to Ollama. Please ensure Ollama is running locally.''),
                 (''details'', JString (''Trying to connect to: '' @ ollama_url cfg))]) \<and>
            (\<exists>b. json_body (res (summarize cfg generate body)) = Some b \<and> mentions b (ollama_url cfg))) \<and>
         (code e \<noteq> Some ''ECONNREFUSED'' \<longrightarrow>
            statusCode (res (summarize cfg generate body)) = 500 \<and>
            json_body (res (summarize cfg generate body)) =
              Some (JObject
                [(''error'', JString ''Failed to generate summary''),
                 (''details'', JString (message e))]))"
proof -
  from assms(2) have nb: "trim t \<noteq> []" by (simp add: trim_Nil_iff)
  then have "t \<noteq> []" by (auto simp: trim_def)
  with assms nb show ?thesis
    using mentions_details [of "''error''" _ "''details''" "''Trying to connect to: ''" "ollama_url cfg"]
    by (simp add: summarize_def summarize_catch_def res_json_def res_status_def
        fresh_response_def del: mentions.simps)
qed

theorem summarize_upstream_failure_witness:
  "statusCode (res (summarize default_config
      (\<lambda>rq. Rejected \<lparr>code = Some ''ECONNREFUSED'', message = ''connect ECONNREFUSED 127.0.0.1:11434''\<rparr>)
      [(''text'', JString ''Hello'')])) = 503 \<and>
   json_body (res (summarize default_config
      (\<lambda>rq. Rejected \<lparr>code = Some ''ECONNREFUSED'', message = ''connect ECONNREFUSED 127.0.0.1:11434''\<rparr>)
      [(''text'', JString ''Hello'')])) =
     Some (JObject
       [(''error'', JString ''Cannot connect to Ollama. Please ensure Ollama is running locally.''),
        (''details'', JString ''Trying to connect to: http://localhost:11434'')]) \<and>
   statusCode (res (summarize default_config
      (\<lambda>rq. Rejected \<lparr>code = Some ''ERR_BAD_RESPONSE'', message = ''Request failed with status code 500''\<rparr>)
      [(''text'', JString ''Hello'')])) = 500 \<and>
   json_body (res (summarize default_config
      (\<lambda>rq. Rejected \<lparr>code = Some ''ERR_BAD_RESPONSE'', message = ''Request failed with status code 500''\<rparr>)
      [(''text'', JString ''Hello'')])) =
     Some (JObject
       [(''error'', JString ''Failed to generate summary''),
        (''details'', JString ''Request failed with status code 500'')])"
proof -
  have t: "req_text [(''text'', JString ''Hello'')] = Some (JString ''Hello'')"
    by (simp add: req_text_def)
  have b: "\<not> blank ''Hello''"
    by (simp add: blank_def is_ws_def)
  have g1: "(\<lambda>rq. Rejected \<lparr>code = Some ''ECONNREFUSED'', message = ''connect ECONNREFUSED 127.0.0.1:11434''\<rparr>)
      (generate_call default_config ''Hello'' False) =
      Rejected \<lparr>code = Some ''ECONNREFUSED'', message = ''connect ECONNREFUSED 127.0.0.1:11434''\<rparr>"
    by simp
  have g2: "(\<lambda>rq. Rejected \<lparr>code = Some ''ERR_BAD_RESPONSE'', message = ''Request failed with status code 500''\<rparr>)
      (generate_call default_config ''Hello'' False) =
      Rejected \<lparr>code = Some ''ERR_BAD_RESPONSE'', message = ''Request failed with status code 500''\<rparr>"
    by simp
  from summarize_upstream_failure [OF t b g1] summarize_upstream_failure [OF t b g2]
  show ?thesis by (simp add: default_config_def)
qed

text \<open>
  Claim C10. When the body of a \<^verbatim>\<open>POST /api/summarize\<close> or
  \<^verbatim>\<open>POST /api/summarize-stream\<close> request has no member \<^verbatim>\<open>text\<close>, or a falsy one, both
  handlers answer as \<^verbatim>\<open>POST /api/summarize\<close> answers the empty text: status 400 with the
  error body, no header of an event stream and no frame written, no upstream call.
\<close>

theorem missing_text_rejected:
  assumes "\<not> truthy (req_text body)"
  shows "summarize cfg generate body = summarize cfg generate [(''text'', JString [])] \<and>
         summarize_stream cfg parse sgenerate body = summarize cfg generate [(''text'', JString [])] \<and>
         statusCode (res (summarize cfg generate [(''text'', JString [])])) = 400 \<and>
         json_body (res (summarize cfg generate [(''text'', JString [])])) = Some text_required \<and>
         headers (res (summarize cfg generate [(''text'', JString [])])) = [] \<and>
         frames (res (summarize cfg generate [(''text'', JString [])])) = [] \<and>
         upstream_calls (summarize cfg generate [(''text'', JString [])]) = []"
  using assms
  by (simp add: summarize_def summarize_stream_def req_text_def res_json_def res_status_def
      fresh_response_def)

theorem missing_text_rejected_witness:
  "\<not> truthy (req_text [(''note'', JString ''no text member'')]) \<and>
   \<not> truthy (req_text [(''text'', JNull)]) \<and>
   statusCode (res (summarize default_config (\<lambda>rq. Resolved (Some ''unused''))
      [(''note'', JString ''no text member'')])) = 400 \<and>
   statusCode (res (summarize_stream default_config JSON_parse (\<lambda>rq. Resolved [End])
      [(''text'', JNull)])) = 400 \<and>
   headers (res (summarize_stream default_config JSON_parse (\<lambda>rq. Resolved [End])
      [(''text'', JNull)])) = [] \<and>
   upstream_calls (summarize_stream default_config JSON_parse (\<lambda>rq. Resolved [End])
      [(''text'', JNull)]) = []"
proof -
  have a: "\<not> truthy (req_text [(''note'', JString ''no text member'')])"
    by (simp add: req_text_def)
  have b: "\<not> truthy (req_text [(''text'', JNull)])"
    by (simp add: req_text_def)
  from missing_text_rejected [OF a, of default_config "\<lambda>rq. Resolved (Some ''unused'')"]
    missing_text_rejected [OF b, of default_config "\<lambda>rq. Resolved (Some ''unused'')" JSON_parse "\<lambda>rq. Resolved [End]"]
    a b
  show ?thesis by simp
qed

subsection \<open>Validation in the streaming handler\<close>

text \<open>
  Claim C2 says that \<^verbatim>\<open>POST /api/summarize-stream\<close> answers a blank text with an
  \<open>error\<close> event in an event stream. At the text of three spaces the handler writes no
  header of an event stream and no frame: it answers with status 400 and a JSON body.
\<close>

theorem stream_blank_counterexample:
  "statusCode (res (summarize_stream default_config JSON_parse (replies (Resolved [End]))
      [(''text'', JString ''   '')])) = 400 \<and>
   json_body (res (summarize_stream default_config JSON_parse (replies (Resolved [End]))
      [(''text'', JString ''   '')])) = Some text_required \<and>
   headers (res (summarize_stream default_config JSON_parse (replies (Resolved [End]))
      [(''text'', JString ''   '')])) = [] \<and>
   frames (res (summarize_stream default_config JSON_parse (replies (Resolved [End]))
      [(''text'', JString ''   '')])) = []"
  by (simp add: summarize_stream_def req_text_def trim_def is_ws_def res_json_def res_status_def
      fresh_response_def)

text \<open>
  Claim C2, amended. When the text of a \<^verbatim>\<open>POST /api/summarize-stream\<close> request is the
  empty string or consists of white space only, the handler answers at once with status
  400 and the JSON error body, before any header of the event stream or any frame is
  written, and makes no upstream call.
\<close>

theorem stream_blank_rejected:
  assumes "req_text body = Some (JString t)" and "blank t"
  shows "statusCode (res (summarize_stream cfg parse generate body)) = 400 \<and>
         json_body (res (summarize_stream cfg parse generate body)) = Some text_required \<and>
         headers (res (summarize_stream cfg parse generate body)) = [] \<and>
         frames (res (summarize_stream cfg parse generate body)) = [] \<and>
         upstream_calls (summarize_stream cfg parse generate body) = []"
  using assms blank_trim_length [OF assms(2)]
  by (simp add: summarize_stream_def res_json_def res_status_def fresh_response_def)

theorem stream_blank_rejected_witness:
  "req_text [(''text'', JString ''   '')] = Some (JString ''   '') \<and> blank ''   '' \<and>
   statusCode (res (summarize_stream default_config JSON_parse (replies (Resolved [End]))
      [(''text'', JString ''   '')])) = 400 \<and>
   upstream_calls (summarize_stream default_config JSON_parse (replies (Resolved [End]))
      [(''text'', JString ''   '')]) = []"
proof -
  have t: "req_text [(''text'', JString ''   '')] = Some (JString ''   '')"
    by (simp add: req_text_def)
  have b: "blank ''   ''"
    by (simp add: blank_def is_ws_def)
  from stream_blank_rejected [OF t b, of default_config JSON_parse "replies (Resolved [End])"] t b
  show ?thesis by simp
qed

subsection \<open>The status passthrough\<close>

text \<open>
  Claim C7 says that every payload of \<^verbatim>\<open>GET /api/ollama-status\<close> has the shape
  \<^verbatim>\<open>OllamaStatus\<close>, in which only \<^verbatim>\<open>error\<close> is optional. When the upstream call is
  rejected the payload has neither \<^verbatim>\<open>models\<close> nor \<^verbatim>\<open>hasRequiredModel\<close>.
\<close>

theorem status_failure_counterexample:
  "json_body (res (ollama_status default_config
      (replies (Rejected \<lparr>code = Some ''ECONNREFUSED'', message = ''connect ECONNREFUSED 127.0.0.1:11434''\<rparr>)))) =
     Some (JObject [(''connected'', JBool False),
                    (''error'', JString ''connect ECONNREFUSED 127.0.0.1:11434''),
                    (''requiredModel'', JString ''mistral'')]) \<and>
   \<not> ollama_status_shape (JObject [(''connected'', JBool False),
                    (''error'', JString ''connect ECONNREFUSED 127.0.0.1:11434''),
                    (''requiredModel'', JString ''mistral'')])"
  by (simp add: ollama_status_def replies_def default_config_def res_json_def fresh_response_def)

lemma is_jstrings_names: "is_jstrings (Some (JArray (map JString ns)))"
  by (induction ns) simp_all

text \<open>
  Claim C7, amended. Every invocation of \<^verbatim>\<open>GET /api/ollama-status\<close> makes one upstream
  call and answers once with status 200. When the call resolves, the payload has the shape
  \<^verbatim>\<open>OllamaStatus\<close>: \<^verbatim>\<open>connected\<close> is true, \<^verbatim>\<open>models\<close> are the names of the models,
  \<^verbatim>\<open>hasRequiredModel\<close> is true iff some name contains the configured model name as a
  substring, and \<^verbatim>\<open>requiredModel\<close> is the configured name. When the call is rejected,
  the payload is \<^verbatim>\<open>{connected: false, error, requiredModel}\<close> with the message of the
  error, without \<^verbatim>\<open>models\<close> and \<^verbatim>\<open>hasRequiredModel\<close>.
\<close>

theorem ollama_status_payload:
  "statusCode (res (ollama_status cfg tags)) = 200 \<and>
   end_calls (res (ollama_status cfg tags)) = 1 \<and>
   upstream_calls (ollama_status cfg tags) = [GetTags (ollama_url cfg @ ''/api/tags'')] \<and>
   (\<forall>data. tags (ollama_url cfg @ ''/api/tags'') = Resolved data \<longrightarrow>
      json_body (res (ollama_status cfg tags)) =
        Some (JObject [(''connected'', JBool True),
                       (''models'', JArray (map JString (models_or_empty data))),
                       (''hasRequiredModel'',
                          JBool (\<exists>n \<in> set (models_or_empty data). sublist (model_name cfg) n)),
                       (''requiredModel'', JString (model_name cfg))]) \<and>
      ollama_status_shape (JObject [(''connected'', JBool True),
                       (''models'', JArray (map JString (models_or_empty data))),
                       (''hasRequiredModel'',
                          JBool (\<exists>n \<in> set (models_or_empty data). sublist (model_name cfg) n)),
                       (''requiredModel'', JString (model_name cfg))])) \<and>
   (\<forall>e. tags (ollama_url cfg @ ''/api/tags'') = Rejected e \<longrightarrow>
      json_body (res (ollama_status cfg tags)) =
        Some (JObject [(''connected'', JBool False),
                       (''error'', JString (message e)),
                       (''requiredModel'', JString (model_name cfg))]))"
proof -
  have a: "statusCode (res (ollama_status cfg tags)) = 200 \<and>
           end_calls (res (ollama_status cfg tags)) = 1 \<and>
           upstream_calls (ollama_status cfg tags) = [GetTags (ollama_url cfg @ ''/api/tags'')]"
    by (simp add: ollama_status_def Let_def res_json_def fresh_response_def split: promise.splits)
  have b: "json_body (res (ollama_status cfg tags)) =
        Some (JObject [(''connected'', JBool True),
                       (''models'', JArray (map JString (models_or_empty data))),
                       (''hasRequiredModel'',
                          JBool (\<exists>n \<in> set (models_or_empty data). sublist (model_name cfg) n)),
                       (''requiredModel'', JString (model_name cfg))])"
    if "tags (ollama_url cfg @ ''/api/tags'') = Resolved data" for data
    using that
    by (simp add: ollama_status_def Let_def res_json_def fresh_response_def list_ex_iff
        str_includes_sublist)
  have c: "ollama_status_shape (JObject [(''connected'', JBool True),
                       (''models'', JArray (map JString ns)),
                       (''hasRequiredModel'', JBool h),
                       (''requiredModel'', JString m)])" for ns h m
    using is_jstrings_names [of ns] by (simp del: is_jstrings.simps)
  have e: "json_body (res (ollama_status cfg tags)) =
        Some (JObject [(''connected'', JBool False),
                       (''error'', JString (message e)),
                       (''requiredModel'', JString (model_name cfg))])"
    if "tags (ollama_url cfg @ ''/api/tags'') = Rejected e" for e
    using that
    by (simp add: ollama_status_def Let_def res_json_def fresh_response_def)
  from a b c e show ?thesis by blast
qed

theorem ollama_status_payload_witness:
  "json_body (res (ollama_status default_config
      (replies (Resolved (Some [''llama3:8b'', ''mistral:latest'']))))) =
     Some (JObject [(''connected'', JBool True),
                    (''models'', JArray [JString ''llama3:8b'', JString ''mistral:latest'']),
                    (''hasRequiredModel'', JBool True),
                    (''requiredModel'', JString ''mistral'')]) \<and>
   json_body (res (ollama_status default_config
      (replies (Rejected \<lparr>code = None, message = ''timeout of 1000ms exceeded''\<rparr>)))) =
     Some (JObject [(''connected'', JBool False),
                    (''error'', JString ''timeout of 1000ms exceeded''),
                    (''requiredModel'', JString ''mistral'')])"
  using ollama_status_payload [of default_config
      "replies (Resolved (Some [''llama3:8b'', ''mistral:latest'']))"]
    ollama_status_payload [of default_config
      "replies (Rejected \<lparr>code = None, message = ''timeout of 1000ms exceeded''\<rparr>)"]
  by (auto simp add: replies_def default_config_def models_or_empty_def
      str_includes_sublist [symmetric] simp del: ollama_status_shape.simps)

subsection \<open>Client disconnect\<close>

lemma destroys_process_line: "destroys (process_line parse text st l) = destroys st"
  by (simp add: process_line_def Let_def split: option.splits)

lemma destroys_lines: "destroys (foldl (process_line parse text) st ls) = destroys st"
  by (induction ls arbitrary: st) (simp_all add: destroys_process_line)

lemma destroys_on_signal:
  "destroys (on_signal parse text st sg) = destroys st + (if sg = ReqClose then 1 else 0)"
  by (cases sg) (simp_all add: on_data_def destroys_lines on_error_def on_end_def on_close_def)

lemma destroys_run_signals:
  "destroys (run_signals parse text st sigs) = destroys st + count_list sigs ReqClose"
  unfolding run_signals_def
  by (induction sigs arbitrary: st) (simp_all add: destroys_on_signal)

lemma runtime_signals_no_close: "ReqClose \<notin> set (runtime_signals evs)"
proof -
  have "ReqClose \<notin> set (dispatched ev)" for ev
    by (cases ev) simp_all
  then show ?thesis by (simp add: runtime_signals_def)
qed

text \<open>Whatever happens while the relay runs, the handler never calls \<^verbatim>\<open>destroy()\<close>
  on the upstream stream.\<close>

lemma runtime_never_destroys:
  assumes "req_text body = Some (JString t)" and "\<not> blank t"
    and "generate (generate_call cfg t True) = Resolved (runtime_signals evs)"
  shows "destroy_calls (summarize_stream cfg parse generate body) = 0"
proof -
  from assms(2) have nb: "trim t \<noteq> []" by (simp add: trim_Nil_iff)
  then have "t \<noteq> []" by (auto simp: trim_def)
  with assms nb
  have "destroy_calls (summarize_stream cfg parse generate body) =
      count_list (runtime_signals evs) ReqClose"
    by (simp add: summarize_stream_def Let_def destroys_run_signals)
  then show ?thesis
    using runtime_signals_no_close [of evs] by (simp add: count_list_0_iff)
qed

text \<open>
  Claim C9 says that the upstream stream is destroyed whenever the client disconnects in
  the middle of the stream. The handler attempts it with the \<^verbatim>\<open>close\<close> listener of
  lines 185 to 190, but attaches it to the request after the request has emitted its
  \<^verbatim>\<open>close\<close>. For an upstream that has delivered one record when the client
  disconnects, \<^verbatim>\<open>destroy()\<close> is not called, and the stream stays as it was: the
  \<open>start\<close> and the \<open>chunk\<close> frame written, the response not ended.
\<close>

theorem client_disconnect_not_handled:
  "runtime_signals [UpstreamData (record_line ''Hi'' False @ [nl]), ClientDisconnect] =
     [Data (record_line ''Hi'' False @ [nl])] \<and>
   destroy_calls (summarize_stream default_config JSON_parse
      (replies (Resolved (runtime_signals
         [UpstreamData (record_line ''Hi'' False @ [nl]), ClientDisconnect])))
      [(''text'', JString ''Hello'')]) = 0 \<and>
   frames (res (summarize_stream default_config JSON_parse
      (replies (Resolved (runtime_signals
         [UpstreamData (record_line ''Hi'' False @ [nl]), ClientDisconnect])))
      [(''text'', JString ''Hello'')])) = [Start, Chunk (JString ''Hi'') ''Hi''] \<and>
   writableEnded (res (summarize_stream default_config JSON_parse
      (replies (Resolved (runtime_signals
         [UpstreamData (record_line ''Hi'' False @ [nl]), ClientDisconnect])))
      [(''text'', JString ''Hello'')])) = False"
  by code_simp

subsection \<open>Terminal events\<close>

text \<open>
  The headers are sent before the listeners are registered, so the \<^verbatim>\<open>end\<close> listener,
  which writes its \<open>complete\<close> event only when \<^verbatim>\<open>res.headersSent\<close> is false, never
  writes.
\<close>

lemma on_end_after_headers: "headersSent (rres st) \<Longrightarrow> on_end orig st = st"
  by (simp add: on_end_def)

lemma opened_response_headersSent: "headersSent opened_response"
  by (simp add: opened_response_def res_write_def res_writeHead_def fresh_response_def)

text \<open>
  Claim C1 asks for exactly one terminal event and exactly one closing of the stream
  whatever the upstream does, with a \<open>complete\<close> event when the upstream ends without a
  completion flag. For an upstream that sends one record without the flag and ends, the
  handler writes \<open>start\<close> and one \<open>chunk\<close>, no terminal event, and never ends the
  response.
\<close>

theorem stream_end_without_done:
  "frames (res (summarize_stream default_config JSON_parse
      (replies (Resolved [Data (record_line ''Hi'' False @ [nl]), End]))
      [(''text'', JString ''Hello'')])) = [Start, Chunk (JString ''Hi'') ''Hi''] \<and>
   filter terminal (frames (res (summarize_stream default_config JSON_parse
      (replies (Resolved [Data (record_line ''Hi'' False @ [nl]), End]))
      [(''text'', JString ''Hello'')]))) = [] \<and>
   writableEnded (res (summarize_stream default_config JSON_parse
      (replies (Resolved [Data (record_line ''Hi'' False @ [nl]), End]))
      [(''text'', JString ''Hello'')])) = False \<and>
   end_calls (res (summarize_stream default_config JSON_parse
      (replies (Resolved [Data (record_line ''Hi'' False @ [nl]), End]))
      [(''text'', JString ''Hello'')])) = 0"
  by code_simp

text \<open>An upstream error after the completion flag: a second terminal event is written
  after the response has ended, and \<^verbatim>\<open>end()\<close> is called twice.\<close>

lemma stream_error_after_done:
  "frames (res (summarize_stream default_config JSON_parse
      (replies (Resolved [Data (record_line ''Hi'' True @ [nl]), StreamError]))
      [(''text'', JString ''Hello'')])) =
     [Start, Chunk (JString ''Hi'') ''Hi'', Complete ''Hi'' ''Hello''] \<and>
   late_writes (res (summarize_stream default_config JSON_parse
      (replies (Resolved [Data (record_line ''Hi'' True @ [nl]), StreamError]))
      [(''text'', JString ''Hello'')])) = [Error ''Stream processing error'' None] \<and>
   end_calls (res (summarize_stream default_config JSON_parse
      (replies (Resolved [Data (record_line ''Hi'' True @ [nl]), StreamError]))
      [(''text'', JString ''Hello'')])) = 2"
  by code_simp

subsection \<open>The relay of well-formed records\<close>

lemma process_line_blank: "trim l = [] \<Longrightarrow> process_line parse text st l = st"
  by (simp add: process_line_def)

lemma foldl_process_filter:
  "foldl (process_line parse text) st (filter (\<lambda>l. trim l \<noteq> []) ls) =
   foldl (process_line parse text) st ls"
  by (induction ls arbitrary: st) (simp_all add: process_line_blank)

lemma foldl_on_data:
  "foldl (on_data parse text) st chunks =
   foldl (process_line parse text) st (concat (map split_nl chunks))"
  by (induction chunks arbitrary: st) (simp_all add: on_data_def)

lemma run_signals_data:
  "run_signals parse text st (map Data chunks) = foldl (on_data parse text) st chunks"
  unfolding run_signals_def
  by (induction chunks arbitrary: st) simp_all

lemma as_record_props:
  assumes "as_record j = Some (f, d)"
  shows "get_prop j ''response'' = Some None \<and> f = [] \<or> get_prop j ''response'' = Some (Some (JString f))"
    and "get_prop j ''done'' = Some None \<and> \<not> d \<or> get_prop j ''done'' = Some (Some (JBool d))"
  using assms
  by (cases j; simp split: option.splits json.splits)+

lemma process_line_record:
  assumes "trim l \<noteq> []" and "parse l = Some j" and "as_record j = Some (f, d)"
  shows "process_line parse orig st l =
     (let st1 = (if f \<noteq> []
                 then st\<lparr>fullResponse := fullResponse st @ f,
                        rres := res_write (Chunk (JString f) (fullResponse st @ f)) (rres st)\<rparr>
                 else st)
      in if d then st1\<lparr>rres := res_end (res_write (Complete (trim (fullResponse st1)) orig) (rres st1))\<rparr>
         else st1)"
  using assms(1,2) as_record_props [OF assms(3)]
  by (auto simp add: process_line_def Let_def)


lemma process_line_ended:
  assumes "writableEnded (rres st)"
  shows "writableEnded (rres (process_line parse text st l)) \<and>
         frames (rres (process_line parse text st l)) = frames (rres st)"
  using assms
  by (simp add: process_line_def Let_def res_write_def res_end_def split: option.splits)

lemma foldl_process_ended:
  "writableEnded (rres st) \<Longrightarrow>
   frames (rres (foldl (process_line parse text) st ls)) = frames (rres st)"
  by (induction ls arbitrary: st) (simp_all add: process_line_ended)

lemma foldl_process_records:
  assumes "\<forall>l \<in> set ls. trim l \<noteq> []"
    and "map (\<lambda>l. case parse l of None \<Rightarrow> None | Some j \<Rightarrow> as_record j) ls = map Some rs"
    and "\<not> writableEnded (rres st)"
  shows "frames (rres (foldl (process_line parse text) st ls)) =
         frames (rres st) @ relay_events text (fullResponse st) rs"
  using assms
proof (induction ls arbitrary: st rs)
  case Nil
  then show ?case by simp
next
  case (Cons l ls)
  from Cons.prems(2) obtain f d rs' j where rs: "rs = (f, d) # rs'"
    and j: "parse l = Some j" "as_record j = Some (f, d)"
    and rest: "map (\<lambda>l. case parse l of None \<Rightarrow> None | Some j \<Rightarrow> as_record j) ls = map Some rs'"
    by (cases rs) (auto split: option.splits)
  from Cons.prems(1) have nb: "trim l \<noteq> []" and nbs: "\<forall>l \<in> set ls. trim l \<noteq> []"
    by simp_all
  note step = process_line_record [where parse = parse and orig = "text" and st = st, OF nb j]
  show ?case
  proof (cases d)
    case True
    have ended: "writableEnded (rres (process_line parse text st l))"
      using True by (simp add: step Let_def res_end_def)
    have fr: "frames (rres (process_line parse text st l)) =
        frames (rres st) @ relay_events text (fullResponse st) rs"
      using True Cons.prems(3) by (simp add: step Let_def rs res_end_def res_write_def)
    show ?thesis
      using foldl_process_ended [OF ended, of parse "text" ls] fr by simp
  next
    case False
    have open': "\<not> writableEnded (rres (process_line parse text st l))"
      using False Cons.prems(3) by (simp add: step Let_def res_write_def)
    have fr: "frames (rres (process_line parse text st l)) =
        frames (rres st) @ (if f \<noteq> [] then [Chunk (JString f) (fullResponse st @ f)] else [])"
      using False Cons.prems(3) by (simp add: step Let_def res_write_def)
    have acc: "fullResponse (process_line parse text st l) = fullResponse st @ f"
      using False by (simp add: step Let_def)
    from Cons.IH [OF nbs rest open'] fr acc False show ?thesis
      by (simp add: rs)
  qed
qed

lemma relay_events_prefixes:
  "sorted_wrt strict_prefix (map accumulated (filter is_chunk (relay_events text acc rs))) \<and>
   (\<forall>e \<in> set (filter is_chunk (relay_events text acc rs)). strict_prefix acc (accumulated e))"
proof (induction rs arbitrary: acc)
  case Nil
  then show ?case by simp
next
  case (Cons r rs)
  obtain f d where r: "r = (f, d)" by (cases r)
  have ext: "strict_prefix acc (accumulated e)"
    if "e \<in> set (filter is_chunk (relay_events text (acc @ f) rs))" for e
  proof -
    from Cons.IH [of "acc @ f"] that have "strict_prefix (acc @ f) (accumulated e)" by blast
    then show ?thesis by (auto simp: strict_prefix_def prefix_def)
  qed
  have app: "f \<noteq> [] \<Longrightarrow> strict_prefix acc (acc @ f)"
    by (simp add: strict_prefix_def)
  show ?case
    using Cons.IH [of "acc @ f"] ext app
    by (auto simp add: r)
qed

lemma relay_events_complete:
  "Complete c orig \<in> set (relay_events text acc rs) \<Longrightarrow>
   orig = text \<and> (\<exists>k < length rs. snd (rs ! k) \<and> c = trim (acc @ concat (map fst (take (Suc k) rs))))"
proof (induction rs arbitrary: acc)
  case Nil
  then show ?case by simp
next
  case (Cons r rs)
  obtain f d where r: "r = (f, d)" by (cases r)
  show ?case
  proof (cases d)
    case True
    with Cons.prems r have "orig = text \<and> c = trim (acc @ f)"
      by (auto split: if_splits)
    with True r show ?thesis by auto
  next
    case False
    with Cons.prems r have "Complete c orig \<in> set (relay_events text (acc @ f) rs)"
      by (auto split: if_splits)
    from Cons.IH [OF this] obtain k where "orig = text" "k < length rs" "snd (rs ! k)"
      "c = trim ((acc @ f) @ concat (map fst (take (Suc k) rs)))" by blast
    then have "Suc k < length (r # rs) \<and> snd ((r # rs) ! Suc k) \<and>
      c = trim (acc @ concat (map fst (take (Suc (Suc k)) (r # rs))))"
      by (simp add: r)
    with \<open>orig = text\<close> show ?thesis by blast
  qed
qed


lemma relay_events_chunks:
  assumes "\<forall>k. Suc k < length rs \<longrightarrow> \<not> snd (rs ! k)"
  shows "filter is_chunk (relay_events text acc rs) =
     map (\<lambda>k. Chunk (JString (fst (rs ! k))) (acc @ concat (map fst (take (Suc k) rs))))
       (filter (\<lambda>k. fst (rs ! k) \<noteq> []) [0..<length rs])"
  using assms
proof (induction rs arbitrary: acc)
  case Nil
  then show ?case by simp
next
  case (Cons r rs)
  obtain f d where r: "r = (f, d)" by (cases r)
  have upt: "[0..<length (r # rs)] = 0 # map Suc [0..<length rs]"
    by (simp add: upt_conv_Cons map_Suc_upt del: upt_Suc)
  show ?case
  proof (cases rs)
    case Nil
    then show ?thesis by (simp add: r)
  next
    case (Cons r' rs')
    with Cons.prems have nd: "\<not> d" by (auto simp: r)
    from Cons.prems have "\<forall>k. Suc k < length rs \<longrightarrow> \<not> snd (rs ! k)" by auto
    from Cons.IH [OF this, of "acc @ f"] nd show ?thesis
      unfolding upt by (simp add: r filter_map comp_def)
  qed
qed

text \<open>
  Claim C8. When the chunks of the upstream stream hold well-formed records only, the
  frames of \<^verbatim>\<open>POST /api/summarize-stream\<close> are \<open>start\<close> followed by the events the
  relay of the specification gives for the records. When no record before the last has
  the completion flag, the \<open>chunk\<close> events are, in order, one for each record with a
  non-empty fragment, with that fragment and the concatenation of all fragments up to it.
  The accumulated content of each \<open>chunk\<close> event strictly extends that of every earlier
  one, and a \<open>complete\<close> event carries the input text and the trimmed concatenation of
  the fragments up to a record with the completion flag.
\<close>

theorem stream_relays_records:
  assumes "req_text body = Some (JString t)" and "\<not> blank t"
    and "generate (generate_call cfg t True) = Resolved (map Data chunks)"
    and "records parse chunks = map Some rs"
  shows "frames (res (summarize_stream cfg parse generate body)) = Start # relay_events t [] rs \<and>
     ((\<forall>k. Suc k < length rs \<longrightarrow> \<not> snd (rs ! k)) \<longrightarrow>
        filter is_chunk (frames (res (summarize_stream cfg parse generate body))) =
          map (\<lambda>k. Chunk (JString (fst (rs ! k))) (concat (map fst (take (Suc k) rs))))
            (filter (\<lambda>k. fst (rs ! k) \<noteq> []) [0..<length rs])) \<and>
     sorted_wrt strict_prefix
       (map accumulated (filter is_chunk (frames (res (summarize_stream cfg parse generate body))))) \<and>
     (\<forall>c orig. Complete c orig \<in> set (frames (res (summarize_stream cfg parse generate body))) \<longrightarrow>
        orig = t \<and>
        (\<exists>k < length rs. snd (rs ! k) \<and> c = trim (concat (map fst (take (Suc k) rs)))))"
proof -
  from assms(2) have nb: "trim t \<noteq> []" by (simp add: trim_Nil_iff)
  then have ne: "t \<noteq> []" by (auto simp: trim_def)
  let ?st = "\<lparr>rres = opened_response, fullResponse = [], destroys = 0\<rparr>"
  let ?ls = "filter (\<lambda>l. trim l \<noteq> []) (concat (map split_nl chunks))"
  have out: "res (summarize_stream cfg parse generate body) =
      rres (foldl (process_line parse t) ?st ?ls)"
    using assms(1,3) nb ne
    by (simp add: summarize_stream_def Let_def run_signals_data foldl_on_data foldl_process_filter)
  have opened: "\<not> writableEnded (rres ?st)" "frames (rres ?st) = [Start]"
    by (simp_all add: opened_response_def res_write_def res_writeHead_def fresh_response_def)
  have nbl: "\<forall>l \<in> set ?ls. trim l \<noteq> []" by simp
  from assms(4) have recs:
    "map (\<lambda>l. case parse l of None \<Rightarrow> None | Some j \<Rightarrow> as_record j) ?ls = map Some rs"
    by (simp add: records_def)
  from foldl_process_records [OF nbl recs opened(1), of t] opened(2)
  have fr: "frames (res (summarize_stream cfg parse generate body)) = Start # relay_events t [] rs"
    by (simp add: out)
  have ch: "filter is_chunk (frames (res (summarize_stream cfg parse generate body))) =
          map (\<lambda>k. Chunk (JString (fst (rs ! k))) (concat (map fst (take (Suc k) rs))))
            (filter (\<lambda>k. fst (rs ! k) \<noteq> []) [0..<length rs])"
    if "\<forall>k. Suc k < length rs \<longrightarrow> \<not> snd (rs ! k)"
    using relay_events_chunks [OF that, of t "[]"] by (simp add: fr)
  have so: "sorted_wrt strict_prefix
       (map accumulated (filter is_chunk (frames (res (summarize_stream cfg parse generate body)))))"
    using relay_events_prefixes [of t "[]" rs] by (simp add: fr)
  have co: "orig = t \<and>
        (\<exists>k < length rs. snd (rs ! k) \<and> c = trim (concat (map fst (take (Suc k) rs))))"
    if "Complete c orig \<in> set (frames (res (summarize_stream cfg parse generate body)))" for c orig
    using relay_events_complete [of c orig t "[]" rs] that by (simp add: fr)
  from fr ch so co show ?thesis by blast
qed

theorem stream_relays_records_witness:
  "req_text [(''text'', JString ''Hello'')] = Some (JString ''Hello'') \<and> \<not> blank ''Hello'' \<and>
   records JSON_parse
     [record_line ''Hi'' False @ [nl] @ record_line '' you'' False @ [nl],
      record_line ''. '' True @ [nl]] =
     map Some [(''Hi'', False), ('' you'', False), (''. '', True)] \<and>
   frames (res (summarize_stream default_config JSON_parse
     (replies (Resolved (map Data
        [record_line ''Hi'' False @ [nl] @ record_line '' you'' False @ [nl],
         record_line ''. '' True @ [nl]])))
     [(''text'', JString ''Hello'')])) =
   [Start, Chunk (JString ''Hi'') ''Hi'', Chunk (JString '' you'') ''Hi you'',
    Chunk (JString ''. '') ''Hi you. '', Complete ''Hi you.'' ''Hello'']"
proof -
  have t: "req_text [(''text'', JString ''Hello'')] = Some (JString ''Hello'')"
    by (simp add: req_text_def)
  have b: "\<not> blank ''Hello''"
    by (simp add: blank_def is_ws_def)
  have g: "replies (Resolved (map Data
        [record_line ''Hi'' False @ [nl] @ record_line '' you'' False @ [nl],
         record_line ''. '' True @ [nl]]))
      (generate_call default_config ''Hello'' True) =
      Resolved (map Data
        [record_line ''Hi'' False @ [nl] @ record_line '' you'' False @ [nl],
         record_line ''. '' True @ [nl]])"
    by (simp add: replies_def)
  have r: "records JSON_parse
     [record_line ''Hi'' False @ [nl] @ record_line '' you'' False @ [nl],
      record_line ''. '' True @ [nl]] =
     map Some [(''Hi'', False), ('' you'', False), (''. '', True)]"
    by code_simp
  have tr: "trim ''Hi you. '' = ''Hi you.''"
    by (simp add: trim_def is_ws_def)
  from stream_relays_records
      [where generate = "replies (Resolved (map Data
        [record_line ''Hi'' False @ [nl] @ record_line '' you'' False @ [nl],
         record_line ''. '' True @ [nl]]))"
         and cfg = default_config and parse = JSON_parse, OF t b g r]
  have "frames (res (summarize_stream default_config JSON_parse
     (replies (Resolved (map Data
        [record_line ''Hi'' False @ [nl] @ record_line '' you'' False @ [nl],
         record_line ''. '' True @ [nl]])))
     [(''text'', JString ''Hello'')])) =
     Start # relay_events ''Hello'' [] [(''Hi'', False), ('' you'', False), (''. '', True)]"
    by blast
  with t b r tr show ?thesis by simp
qed

subsection \<open>Chunk boundaries\<close>

lemma split_nl_nonempty: "split_nl s \<noteq> []"
  by (induction s) (auto split: list.splits)

lemma split_nl_append_nl: "split_nl (a @ nl # b) = split_nl a @ split_nl b"
proof (induction a)
  case Nil
  then show ?case by simp
next
  case (Cons c a)
  obtain l ls where "split_nl a = l # ls"
    using split_nl_nonempty [of a] by (cases "split_nl a") auto
  with Cons show ?case by simp
qed

lemma on_data_aligned:
  assumes "line_aligned c"
  shows "on_data parse orig st (c @ rest) = on_data parse orig (on_data parse orig st c) rest"
proof (cases "c = []")
  case True
  then show ?thesis by (simp add: on_data_def process_line_blank trim_def)
next
  case False
  with assms obtain a where c: "c = a @ [nl]"
    unfolding line_aligned_def by (metis append_butlast_last_id)
  have "split_nl c = split_nl a @ [[]]"
    using split_nl_append_nl [of a "[]"] by (simp add: c)
  moreover have "split_nl (c @ rest) = split_nl a @ split_nl rest"
    using split_nl_append_nl [of a rest] by (simp add: c)
  ultimately show ?thesis
    by (simp add: on_data_def process_line_blank trim_def)
qed

lemma foldl_on_data_aligned:
  assumes "\<forall>c \<in> set (butlast chunks). line_aligned c"
  shows "foldl (on_data parse orig) st chunks = on_data parse orig st (concat chunks)"
  using assms
proof (induction chunks arbitrary: st)
  case Nil
  then show ?case by (simp add: on_data_def process_line_blank trim_def)
next
  case (Cons c cs)
  show ?case
  proof (cases cs)
    case Nil
    then show ?thesis by simp
  next
    case (Cons c' cs')
    with Cons.prems have al: "line_aligned c" and rest: "\<forall>c \<in> set (butlast cs). line_aligned c"
      by simp_all
    from Cons.IH [OF rest] on_data_aligned [OF al] show ?thesis by simp
  qed
qed

lemma run_signals_append:
  "run_signals parse orig st (xs @ ys) = run_signals parse orig (run_signals parse orig st xs) ys"
  by (simp add: run_signals_def)

text \<open>
  Claim C3, amended. The relay splits each upstream chunk at line feeds and parses each
  piece on its own, without a buffer across chunks. When every chunk but the last ends
  where a line ends, the outcome depends on the concatenated stream only: two such
  chunkings of the same bytes, followed by the same signals, give the same outcome.
\<close>

theorem stream_line_aligned_chunks:
  assumes "req_text body = Some (JString t)" and "\<not> blank t"
    and "generate (generate_call cfg t True) = Resolved (map Data chunks @ rest)"
    and "generate' (generate_call cfg t True) = Resolved (map Data chunks' @ rest)"
    and "\<forall>c \<in> set (butlast chunks). line_aligned c"
    and "\<forall>c \<in> set (butlast chunks'). line_aligned c"
    and "concat chunks = concat chunks'"
  shows "summarize_stream cfg parse generate body = summarize_stream cfg parse generate' body"
proof -
  from assms(2) have nb: "trim t \<noteq> []" by (simp add: trim_Nil_iff)
  then have ne: "t \<noteq> []" by (auto simp: trim_def)
  have "run_signals parse t st (map Data chunks @ rest) =
        run_signals parse t st (map Data chunks' @ rest)" for st
    using foldl_on_data_aligned [OF assms(5), of parse t st]
      foldl_on_data_aligned [OF assms(6), of parse t st] assms(7)
    by (simp add: run_signals_append run_signals_data)
  with assms(1,3,4) nb ne show ?thesis
    by (simp add: summarize_stream_def Let_def)
qed

theorem stream_line_aligned_chunks_witness:
  "req_text [(''text'', JString ''Hello'')] = Some (JString ''Hello'') \<and> \<not> blank ''Hello'' \<and>
   list_all line_aligned
     (butlast [record_line ''Hi'' False @ [nl], record_line '' you'' True @ [nl]]) \<and>
   list_all line_aligned
     (butlast [record_line ''Hi'' False @ [nl] @ record_line '' you'' True @ [nl]]) \<and>
   concat [record_line ''Hi'' False @ [nl], record_line '' you'' True @ [nl]] =
     concat [record_line ''Hi'' False @ [nl] @ record_line '' you'' True @ [nl]] \<and>
   summarize_stream default_config JSON_parse
     (replies (Resolved (map Data [record_line ''Hi'' False @ [nl], record_line '' you'' True @ [nl]] @ [End])))
     [(''text'', JString ''Hello'')] =
   summarize_stream default_config JSON_parse
     (replies (Resolved (map Data [record_line ''Hi'' False @ [nl] @ record_line '' you'' True @ [nl]] @ [End])))
     [(''text'', JString ''Hello'')]"
proof -
  have t: "req_text [(''text'', JString ''Hello'')] = Some (JString ''Hello'')"
    by (simp add: req_text_def)
  have b: "\<not> blank ''Hello''"
    by (simp add: blank_def is_ws_def)
  have g: "replies (Resolved (map Data [record_line ''Hi'' False @ [nl], record_line '' you'' True @ [nl]] @ [End]))
      (generate_call default_config ''Hello'' True) =
      Resolved (map Data [record_line ''Hi'' False @ [nl], record_line '' you'' True @ [nl]] @ [End])"
    by (simp add: replies_def)
  have g': "replies (Resolved (map Data [record_line ''Hi'' False @ [nl] @ record_line '' you'' True @ [nl]] @ [End]))
      (generate_call default_config ''Hello'' True) =
      Resolved (map Data [record_line ''Hi'' False @ [nl] @ record_line '' you'' True @ [nl]] @ [End])"
    by (simp add: replies_def)
  have a: "\<forall>c \<in> set (butlast [record_line ''Hi'' False @ [nl], record_line '' you'' True @ [nl]]).
      line_aligned c"
    by (simp add: line_aligned_def)
  have a': "\<forall>c \<in> set (butlast [record_line ''Hi'' False @ [nl] @ record_line '' you'' True @ [nl]]).
      line_aligned c"
    by simp
  have c: "concat [record_line ''Hi'' False @ [nl], record_line '' you'' True @ [nl]] =
     concat [record_line ''Hi'' False @ [nl] @ record_line '' you'' True @ [nl]]"
    by simp
  from stream_line_aligned_chunks
    [where generate = "replies (Resolved (map Data [record_line ''Hi'' False @ [nl], record_line '' you'' True @ [nl]] @ [End]))"
       and generate' = "replies (Resolved (map Data [record_line ''Hi'' False @ [nl] @ record_line '' you'' True @ [nl]] @ [End]))"
       and cfg = default_config and parse = JSON_parse, OF t b g g' a a' c]
    t b a a' c
  show ?thesis by (simp only: list_all_iff) blast
qed

text \<open>
  Claim C3 says that a record split across two chunks is reassembled. The record
  \<^verbatim>\<open>{"response":"Hi","done":true}\<close> in one chunk gives a \<open>chunk\<close> and a \<open>complete\<close>
  event; split after its twelfth character into two chunks it gives no event, as neither
  part is JSON.
\<close>

theorem split_record_counterexample:
  "take 12 (record_line ''Hi'' True @ [nl]) @ drop 12 (record_line ''Hi'' True @ [nl]) =
     record_line ''Hi'' True @ [nl] \<and>
   frames (res (summarize_stream default_config JSON_parse
     (replies (Resolved [Data (record_line ''Hi'' True @ [nl])]))
     [(''text'', JString ''Hello'')])) =
     [Start, Chunk (JString ''Hi'') ''Hi'', Complete ''Hi'' ''Hello''] \<and>
   frames (res (summarize_stream default_config JSON_parse
     (replies (Resolved [Data (take 12 (record_line ''Hi'' True @ [nl])),
                         Data (drop 12 (record_line ''Hi'' True @ [nl]))]))
     [(''text'', JString ''Hello'')])) = [Start]"
  by code_simp

end
